theory Spec2Isabelle
  imports Main
begin

section \<open>Go values and library functions\<close>

text \<open>
  A Go \<open>error\<close> is \<open>nil\<close> or a value with a message (\<open>err.Error()\<close>): \<open>None\<close> or
  \<open>Some message\<close>. Strings are byte lists.
\<close>

type_synonym error = "string option"

text \<open>\<open>strings.HasPrefix\<close> and \<open>strings.Contains\<close>.\<close>

fun HasPrefix :: "string \<Rightarrow> string \<Rightarrow> bool" where
  "HasPrefix s [] = True"
| "HasPrefix [] (p # ps) = False"
| "HasPrefix (c # s) (p # ps) = (c = p \<and> HasPrefix s ps)"

fun Contains :: "string \<Rightarrow> string \<Rightarrow> bool" where
  "Contains [] substr = (substr = [])"
| "Contains (c # s) substr = (HasPrefix (c # s) substr \<or> Contains s substr)"

text \<open>\<open>strings.Join(elems, sep)\<close>.\<close>

fun Join :: "string list \<Rightarrow> string \<Rightarrow> string" where
  "Join [] sep = []"
| "Join [a] sep = a"
| "Join (a # b # elems) sep = a @ sep @ Join (b # elems) sep"

text \<open>\<open>strings.Compare(a, b)\<close>: the bytewise lexicographic comparison, \<open>-1\<close>, \<open>0\<close> or \<open>1\<close>.\<close>

fun Compare :: "string \<Rightarrow> string \<Rightarrow> int" where
  "Compare [] [] = 0"
| "Compare [] (b # bs) = - 1"
| "Compare (a # as) [] = 1"
| "Compare (a # as) (b # bs) =
     (if (of_char a :: nat) < of_char b then - 1
      else if (of_char b :: nat) < of_char a then 1
      else Compare as bs)"

section \<open>The environment: mount table, file system, runtime, processes, log\<close>

text \<open>
  \<open>mount.MountPoint\<close> of k8s.io/mount-utils.
\<close>

record MountPoint =
  Device :: string
  Path :: string
  Type :: string
  Opts :: "string list"
  Freq :: int
  Pass :: int

datatype Level = DebugLevel | InfoLevel | ErrorLevel

datatype arg = ArgString string | ArgInt int | ArgError string

datatype Signal = Interrupt

text \<open>
  Every call the code makes outside itself, and what came back. The log calls of logrus
  are recorded with their format string and arguments; they return nothing.
\<close>

datatype call =
    MounterList
  | MounterUnmount string
  | OsRemoveAll string
  | OsRemove string
  | RuntimeListContainers string
  | RuntimeStopContainer string string
  | RuntimeRemoveContainer string string
  | CmdStart string "string list"
  | ProcessSignal int Signal
  | ProcessKill int
  | TimeSleep int
  | LogPrint Level "arg list"
  | LogPrintf Level string "arg list"

datatype answer =
    Unit
  | Err error
  | Mounts "string + MountPoint list"
  | Containers "string + string list"
  | Started "string + int"

type_synonym event = "call \<times> answer"
type_synonym trace = "event list"

text \<open>
  The environment answers each call as a function of everything that happened before
  (the trace of calls and answers so far), so an answer may depend on earlier calls: the
  same path can unmount once and fail the second time. The theorems hold for every
  environment. \<open>filepath_Join\<close> is the library function \<open>filepath.Join\<close>, which is
  not modelled.
\<close>

record env =
  on_List :: "trace \<Rightarrow> string + MountPoint list"
  on_Unmount :: "trace \<Rightarrow> string \<Rightarrow> error"
  on_RemoveAll :: "trace \<Rightarrow> string \<Rightarrow> error"
  on_Remove :: "trace \<Rightarrow> string \<Rightarrow> error"
  on_ListContainers :: "trace \<Rightarrow> string \<Rightarrow> string + string list"
  on_StopContainer :: "trace \<Rightarrow> string \<Rightarrow> string \<Rightarrow> error"
  on_RemoveContainer :: "trace \<Rightarrow> string \<Rightarrow> string \<Rightarrow> error"
  on_Start :: "trace \<Rightarrow> string \<Rightarrow> string list \<Rightarrow> string + int"
  on_Signal :: "trace \<Rightarrow> int \<Rightarrow> Signal \<Rightarrow> error"
  on_Kill :: "trace \<Rightarrow> int \<Rightarrow> error"
  filepath_Join :: "string \<Rightarrow> string \<Rightarrow> string"

definition mounter_List :: "env \<Rightarrow> trace \<Rightarrow> (string + MountPoint list) \<times> trace" where
  "mounter_List env h = (let r = on_List env h in (r, h @ [(MounterList, Mounts r)]))"

definition mounter_Unmount :: "env \<Rightarrow> string \<Rightarrow> trace \<Rightarrow> error \<times> trace" where
  "mounter_Unmount env p h =
     (let r = on_Unmount env h p in (r, h @ [(MounterUnmount p, Err r)]))"

definition os_RemoveAll :: "env \<Rightarrow> string \<Rightarrow> trace \<Rightarrow> error \<times> trace" where
  "os_RemoveAll env p h =
     (let r = on_RemoveAll env h p in (r, h @ [(OsRemoveAll p, Err r)]))"

definition os_Remove :: "env \<Rightarrow> string \<Rightarrow> trace \<Rightarrow> error \<times> trace" where
  "os_Remove env p h =
     (let r = on_Remove env h p in (r, h @ [(OsRemove p, Err r)]))"

definition time_Sleep :: "int \<Rightarrow> trace \<Rightarrow> trace" where
  "time_Sleep d h = h @ [(TimeSleep d, Unit)]"

text \<open>\<open>time.Second\<close>, a \<open>time.Duration\<close> in nanoseconds.\<close>

definition Second :: int where
  "Second = 1000000000"

definition process_Signal :: "env \<Rightarrow> int \<Rightarrow> Signal \<Rightarrow> trace \<Rightarrow> error \<times> trace" where
  "process_Signal env pid sig h =
     (let r = on_Signal env h pid sig in (r, h @ [(ProcessSignal pid sig, Err r)]))"

definition process_Kill :: "env \<Rightarrow> int \<Rightarrow> trace \<Rightarrow> error \<times> trace" where
  "process_Kill env pid h =
     (let r = on_Kill env h pid in (r, h @ [(ProcessKill pid, Err r)]))"

definition cmd_Start :: "env \<Rightarrow> string \<Rightarrow> string list \<Rightarrow> trace \<Rightarrow> (string + int) \<times> trace" where
  "cmd_Start env name args h =
     (let r = on_Start env h name args in (r, h @ [(CmdStart name args, Started r)]))"

definition logrus_print :: "Level \<Rightarrow> arg list \<Rightarrow> trace \<Rightarrow> trace" where
  "logrus_print l args h = h @ [(LogPrint l args, Unit)]"

definition logrus_printf :: "Level \<Rightarrow> string \<Rightarrow> arg list \<Rightarrow> trace \<Rightarrow> trace" where
  "logrus_printf l format args h = h @ [(LogPrintf l format args, Unit)]"

section \<open>The teardown configuration\<close>

text \<open>
  \<open>exec.Cmd\<close>: \<open>Process\<close> is set by a successful \<open>Start\<close>, \<open>ProcessState\<close> only
  by \<open>Wait\<close>. A \<open>ProcessState\<close> holds the wait status: exited with a code, or ended by
  a signal.
\<close>

datatype ProcessState = Exited nat | Signaled nat

record Cmd =
  Process :: "int option"
  ProcessState :: "ProcessState option"

record containerd =
  binPath :: string
  socketPath :: string
  cmd :: "Cmd option"

datatype ContainerRuntime = CRIRuntime string

record CleanUpConfig =
  containerd :: "containerd option"
  containerRuntime :: "ContainerRuntime option"
  dataDir :: string
  runDir :: string

text \<open>
  A nil dereference panics: a function that can panic returns \<open>Panic\<close> or
  \<open>Return\<close> with its value, next to the trace up to that point.
\<close>

datatype 'a outcome = Panic | Return 'a

text \<open>
  \<open>(*os.ProcessState).ExitCode\<close>: \<open>-1\<close> on a nil receiver and for a process that
  did not exit by itself, else the exit code.
\<close>

definition ExitCode :: "ProcessState option \<Rightarrow> int" where
  "ExitCode p = (case p of None \<Rightarrow> - 1 | Some (Exited n) \<Rightarrow> int n | Some (Signaled s) \<Rightarrow> - 1)"

section \<open>The runtime client\<close>

text \<open>
  The interface \<open>ContainerRuntime\<close> has one implementation here, \<open>CRIRuntime\<close>,
  whose methods go to the runtime behind its socket (the environment). A method call on
  the nil interface panics.
\<close>

definition NewContainerRuntime :: "string \<Rightarrow> string \<Rightarrow> ContainerRuntime option \<times> error" where
  "NewContainerRuntime runtimeType criSocketPath =
     (if runtimeType = ''docker'' then (None, None)
      else (Some (CRIRuntime criSocketPath), None))"

definition ListContainers :: "ContainerRuntime option \<Rightarrow> env \<Rightarrow> trace \<Rightarrow> (string + string list) outcome \<times> trace" where
  "ListContainers rt env h =
     (case rt of
        None \<Rightarrow> (Panic, h)
      | Some (CRIRuntime s) \<Rightarrow>
          (let r = on_ListContainers env h s
           in (Return r, h @ [(RuntimeListContainers s, Containers r)])))"

definition StopContainer :: "ContainerRuntime option \<Rightarrow> string \<Rightarrow> env \<Rightarrow> trace \<Rightarrow> error outcome \<times> trace" where
  "StopContainer rt cid env h =
     (case rt of
        None \<Rightarrow> (Panic, h)
      | Some (CRIRuntime s) \<Rightarrow>
          (let r = on_StopContainer env h s cid
           in (Return r, h @ [(RuntimeStopContainer s cid, Err r)])))"

definition RemoveContainer :: "ContainerRuntime option \<Rightarrow> string \<Rightarrow> env \<Rightarrow> trace \<Rightarrow> error outcome \<times> trace" where
  "RemoveContainer rt cid env h =
     (case rt of
        None \<Rightarrow> (Panic, h)
      | Some (CRIRuntime s) \<Rightarrow>
          (let r = on_RemoveContainer env h s cid
           in (Return r, h @ [(RuntimeRemoveContainer s cid, Err r)])))"

section \<open>Construction\<close>

text \<open>
  \<open>worker.SplitRuntimeConfig\<close> is not among the source files: it is the first
  parameter (runtime type, socket path, error). The struct field \<open>containerRuntime\<close>
  takes the runtime that \<open>NewContainerRuntime\<close> returns; the error it returns beside
  it is nil on both of its paths.
\<close>

definition NewCleanUpConfig :: "(string \<Rightarrow> string \<times> string \<times> error) \<Rightarrow> string \<Rightarrow> string \<Rightarrow> CleanUpConfig option \<times> error" where
  "NewCleanUpConfig SplitRuntimeConfig dataDir0 criSocketPath =
     (let runDir0 = ''/run/k0s'' in
      if criSocketPath = [] then
        (let criSocketPath1 = ''unix:///'' @ runDir0 @ ''/containerd.sock'';
             ctrd = Some \<lparr>binPath = dataDir0 @ ''/'' @ ''bin/containerd'',
                          socketPath = runDir0 @ ''/containerd.sock'',
                          cmd = None\<rparr>;
             runtimeType = ''cri''
         in (Some \<lparr>containerd = ctrd,
                    containerRuntime = fst (NewContainerRuntime runtimeType criSocketPath1),
                    dataDir = dataDir0,
                    runDir = runDir0\<rparr>, None))
      else
        (let (runtimeType, criSocketPath1, err) = SplitRuntimeConfig criSocketPath in
         case err of
           Some e \<Rightarrow> (None, Some e)
         | None \<Rightarrow>
             (Some \<lparr>containerd = None,
                     containerRuntime = fst (NewContainerRuntime runtimeType criSocketPath1),
                     dataDir = dataDir0,
                     runDir = runDir0\<rparr>, None)))"

section \<open>Mount reverters\<close>

fun cleanupMount_loop :: "env \<Rightarrow> MountPoint list \<Rightarrow> string list \<Rightarrow> trace \<Rightarrow> string list \<times> trace" where
  "cleanupMount_loop env [] msg h = (msg, h)"
| "cleanupMount_loop env (v # vs) msg h =
     (if Contains (Path v) ''kubelet/pods'' then
        (let (err, h1) = mounter_Unmount env (Path v) h;
             msg1 = (case err of Some e \<Rightarrow> msg @ [e] | None \<Rightarrow> msg);
             (err2, h2) = os_RemoveAll env (Path v) h1;
             msg2 = (case err2 of Some e \<Rightarrow> msg1 @ [e] | None \<Rightarrow> msg1)
         in cleanupMount_loop env vs msg2 h2)
      else cleanupMount_loop env vs msg h)"

definition cleanupMount :: "CleanUpConfig \<Rightarrow> env \<Rightarrow> trace \<Rightarrow> error \<times> trace" where
  "cleanupMount c env h =
     (let (r, h1) = mounter_List env h in
      case r of
        Inl err \<Rightarrow> (Some err, h1)
      | Inr procMounts \<Rightarrow>
          (let (msg, h2) = cleanupMount_loop env procMounts [] h1 in
           if length msg > 0 then (Some (Join msg '', ''), h2) else (None, h2)))"

fun cleanupNetworkNamespace_loop :: "env \<Rightarrow> MountPoint list \<Rightarrow> string list \<Rightarrow> trace \<Rightarrow> string list \<times> trace" where
  "cleanupNetworkNamespace_loop env [] msg h = (msg, h)"
| "cleanupNetworkNamespace_loop env (v # vs) msg h =
     (if Contains (Path v) ''run/netns'' then
        (let (err, h1) = mounter_Unmount env (Path v) h;
             msg1 = (case err of Some e \<Rightarrow> msg @ [e] | None \<Rightarrow> msg);
             (err2, h2) = os_RemoveAll env (Path v) h1;
             msg2 = (case err2 of Some e \<Rightarrow> msg1 @ [e] | None \<Rightarrow> msg1)
         in cleanupNetworkNamespace_loop env vs msg2 h2)
      else cleanupNetworkNamespace_loop env vs msg h)"

definition cleanupNetworkNamespace :: "CleanUpConfig \<Rightarrow> env \<Rightarrow> trace \<Rightarrow> error \<times> trace" where
  "cleanupNetworkNamespace c env h =
     (let (r, h1) = mounter_List env h in
      case r of
        Inl err \<Rightarrow> (Some err, h1)
      | Inr procMounts \<Rightarrow>
          (let (msg, h2) = cleanupNetworkNamespace_loop env procMounts [] h1 in
           if length msg > 0 then (Some (Join msg '', ''), h2) else (None, h2)))"

section \<open>Container phases\<close>

fun stopAllContainers_loop :: "CleanUpConfig \<Rightarrow> env \<Rightarrow> string list \<Rightarrow> string list \<Rightarrow> trace \<Rightarrow> string list outcome \<times> trace" where
  "stopAllContainers_loop c env [] msg h = (Return msg, h)"
| "stopAllContainers_loop c env (container # cs) msg h =
     (let h1 = logrus_printf DebugLevel ''stopping container: %v'' [ArgString container] h;
          (r, h2) = StopContainer (containerRuntime c) container env h1
      in case r of
           Panic \<Rightarrow> (Panic, h2)
         | Return None \<Rightarrow> stopAllContainers_loop c env cs msg h2
         | Return (Some e) \<Rightarrow>
             (if Contains e ''443: connect: connection refused'' then
                stopAllContainers_loop c env cs msg
                  (logrus_printf DebugLevel ''ignoring container stop err: %v'' [ArgString e] h2)
              else
                stopAllContainers_loop c env cs
                  (msg @ [''failed to stop running pod '' @ container @ '': err: '' @ e]) h2))"

definition stopAllContainers :: "CleanUpConfig \<Rightarrow> env \<Rightarrow> trace \<Rightarrow> error outcome \<times> trace" where
  "stopAllContainers c env h =
     (let (r, h1) = ListContainers (containerRuntime c) env h in
      case r of
        Panic \<Rightarrow> (Panic, h1)
      | Return (Inl err) \<Rightarrow> (Return (Some err), h1)
      | Return (Inr containers) \<Rightarrow>
          (let (r2, h2) = stopAllContainers_loop c env containers [] h1 in
           case r2 of
             Panic \<Rightarrow> (Panic, h2)
           | Return msg \<Rightarrow>
               (if length msg > 0 then (Return (Some (Join msg '', '')), h2)
                else (Return None, h2))))"

fun removeAllContainers_loop :: "CleanUpConfig \<Rightarrow> env \<Rightarrow> string list \<Rightarrow> string list \<Rightarrow> trace \<Rightarrow> string list outcome \<times> trace" where
  "removeAllContainers_loop c env [] msg h = (Return msg, h)"
| "removeAllContainers_loop c env (container # cs) msg h =
     (let (r, h1) = RemoveContainer (containerRuntime c) container env h
      in case r of
           Panic \<Rightarrow> (Panic, h1)
         | Return None \<Rightarrow> removeAllContainers_loop c env cs msg h1
         | Return (Some e) \<Rightarrow>
             removeAllContainers_loop c env cs
               (msg @ [''failed to remove pod '' @ container @ '': err: '' @ e]) h1)"

definition removeAllContainers :: "CleanUpConfig \<Rightarrow> env \<Rightarrow> trace \<Rightarrow> error outcome \<times> trace" where
  "removeAllContainers c env h =
     (let (r, h1) = ListContainers (containerRuntime c) env h in
      case r of
        Panic \<Rightarrow> (Panic, h1)
      | Return (Inl err) \<Rightarrow> (Return (Some err), h1)
      | Return (Inr containers) \<Rightarrow>
          (let (r2, h2) = removeAllContainers_loop c env containers [] h1 in
           case r2 of
             Panic \<Rightarrow> (Panic, h2)
           | Return msg \<Rightarrow>
               (if length msg > 0 then (Return (Some (Join msg '', '')), h2)
                else (Return None, h2))))"

section \<open>The daemon\<close>

text \<open>
  \<open>startContainerd\<close> stores the started command in the configuration, so it returns
  the configuration next to its error. \<open>exec.Command\<close> gives a command with no
  process and no process state; a successful \<open>Start\<close> sets the process.
\<close>

definition startContainerd :: "CleanUpConfig \<Rightarrow> env \<Rightarrow> trace \<Rightarrow> (error \<times> CleanUpConfig) outcome \<times> trace" where
  "startContainerd c env h =
     (case containerd c of
        None \<Rightarrow> (Panic, h)
      | Some d \<Rightarrow>
          (let args = [''--root='' @ filepath_Join env (dataDir c) ''containerd'',
                       ''--state='' @ filepath_Join env (runDir c) ''containerd'',
                       ''--address='' @ socketPath d,
                       ''--config=/etc/k0s/containerd.toml''];
               (r, h1) = cmd_Start env (binPath d) args h
           in case r of
                Inl err \<Rightarrow> (Return (Some (''failed to start containerd: '' @ err), c), h1)
              | Inr pid \<Rightarrow>
                  (Return (None,
                     c\<lparr>containerd :=
                         Some (d\<lparr>cmd := Some \<lparr>Process = Some pid, ProcessState = None\<rparr>\<rparr>)\<rparr>),
                   h1)))"

definition stopContainerd :: "CleanUpConfig \<Rightarrow> env \<Rightarrow> trace \<Rightarrow> unit outcome \<times> trace" where
  "stopContainerd c env h =
     (let h1 = logrus_print DebugLevel [ArgString ''attempting to stop containerd''] h in
      case containerd c of
        None \<Rightarrow> (Panic, h1)
      | Some d \<Rightarrow>
          (case cmd d of
             None \<Rightarrow> (Panic, h1)
           | Some m \<Rightarrow>
               (case Process m of
                  None \<Rightarrow> (Panic, h1)
                | Some pid \<Rightarrow>
                    (let h2 = logrus_printf DebugLevel ''found containerd pid: %v'' [ArgInt pid] h1;
                         (err, h3) = process_Signal env pid Interrupt h2;
                         h4 = (case err of
                                 Some e \<Rightarrow>
                                   logrus_printf ErrorLevel ''failed to kill containerd: %v''
                                     [ArgError e] h3
                               | None \<Rightarrow> h3)
                     in if ExitCode (ProcessState m) \<noteq> - 1 then
                          (let h5 = time_Sleep (5 * Second) h4;
                               (err2, h6) = process_Kill env pid h5;
                               h7 = (case err2 of
                                       Some e \<Rightarrow>
                                         logrus_printf ErrorLevel
                                           ''failed to send SIGKILL to containerd: %v''
                                           [ArgError e] h6
                                     | None \<Rightarrow> h6)
                           in (Return (),
                               logrus_print DebugLevel
                                 [ArgString ''successfully stopped containerd''] h7))
                        else
                          (Return (),
                           logrus_print DebugLevel
                             [ArgString ''successfully stopped containerd''] h4)))))"

section \<open>Directory erasure\<close>

definition removeCNILeftovers :: "env \<Rightarrow> trace \<Rightarrow> trace" where
  "removeCNILeftovers env h =
     (let calico10Conflist = ''/etc/cni/net.d/10-calico.conflist'';
          calicoKubeconfig = ''/etc/cni/net.d/calico-kubeconfig'';
          kuberouter10Conflist = ''/etc/cni/net.d/10-kuberouter.conflist'';
          (err1, h1) = os_Remove env calico10Conflist h;
          msg1 = (case err1 of
                    Some e \<Rightarrow> [''failed to delete '' @ calico10Conflist @ ''. err: '' @ e]
                  | None \<Rightarrow> []);
          (err2, h2) = os_Remove env calicoKubeconfig h1;
          msg2 = (case err2 of
                    Some e \<Rightarrow> msg1 @ [''failed to delete '' @ calicoKubeconfig @ ''. err: '' @ e]
                  | None \<Rightarrow> msg1);
          (err3, h3) = os_Remove env kuberouter10Conflist h2;
          msg3 = (case err3 of
                    Some e \<Rightarrow> msg2 @ [''failed to delete '' @ kuberouter10Conflist @ ''. err: '' @ e]
                  | None \<Rightarrow> msg2)
      in if length msg3 > 0 then logrus_printf DebugLevel (Join msg3 '', '') [] h3 else h3)"

fun RemoveAllDirectories_loop :: "CleanUpConfig \<Rightarrow> env \<Rightarrow> MountPoint list \<Rightarrow> string list \<Rightarrow> trace \<Rightarrow> string list \<times> trace" where
  "RemoveAllDirectories_loop c env [] msg h = (msg, h)"
| "RemoveAllDirectories_loop c env (v # vs) msg h =
     (if Compare (Path v) (dataDir c @ ''/kubelet'') = 0 then
        (let h1 = logrus_printf DebugLevel ''%v is mounted! attempting to unmount...''
                    [ArgString (Path v)] h;
             (err, h2) = mounter_Unmount env (Path v) h1;
             msg1 = (case err of Some e \<Rightarrow> msg @ [e] | None \<Rightarrow> msg)
         in RemoveAllDirectories_loop c env vs msg1 h2)
      else if Compare (Path v) (dataDir c) = 0 then
        (let h1 = logrus_printf DebugLevel ''%v is mounted! attempting to unmount...''
                    [ArgString (Path v)] h;
             (err, h2) = mounter_Unmount env (Path v) h1;
             msg1 = (case err of Some e \<Rightarrow> msg @ [e] | None \<Rightarrow> msg)
         in RemoveAllDirectories_loop c env vs msg1 h2)
      else RemoveAllDirectories_loop c env vs msg h)"

definition RemoveAllDirectories :: "CleanUpConfig \<Rightarrow> env \<Rightarrow> trace \<Rightarrow> error \<times> trace" where
  "RemoveAllDirectories c env h =
     (let (r, h1) = mounter_List env h in
      case r of
        Inl err \<Rightarrow> (Some err, h1)
      | Inr procMounts \<Rightarrow>
          (let (msg1, h2) = RemoveAllDirectories_loop c env procMounts [] h1;
               h3 = removeCNILeftovers env h2;
               h4 = logrus_printf InfoLevel
                      ''deleting k0s generated data-dir (%v) and run-dir (%v)''
                      [ArgString (dataDir c), ArgString (runDir c)] h3;
               (err2, h5) = os_RemoveAll env (dataDir c) h4;
               msg2 = (case err2 of
                         Some e \<Rightarrow> msg1 @ [''failed to delete '' @ dataDir c @ ''. err: '' @ e]
                       | None \<Rightarrow> msg1);
               (err3, h6) = os_RemoveAll env (runDir c) h5;
               msg3 = (case err3 of
                         Some e \<Rightarrow> msg2 @ [''failed to delete '' @ runDir c @ ''. err: '' @ e]
                       | None \<Rightarrow> msg2)
           in if length msg3 > 0 then (Some (Join msg3 '', ''), h6) else (None, h6)))"

section \<open>Reading a trace\<close>

text \<open>The message of a failed call, and the messages of all failed calls of a trace.\<close>

fun failure :: "event \<Rightarrow> string list" where
  "failure (c, Err (Some e)) = [e]"
| "failure (c, a) = []"

definition failures :: "trace \<Rightarrow> string list" where
  "failures t = concat (map failure t)"

text \<open>What a collector returns: no error for no message, else the messages comma-joined.\<close>

definition joined :: "string list \<Rightarrow> error" where
  "joined msg = (if msg = [] then None else Some (Join msg '', ''))"

text \<open>
  The calls a mount reverter is to make for a mount table: for each entry whose path has
  the substring, in table order, an unmount and then a recursive removal of that path.
\<close>

definition revert_calls :: "string \<Rightarrow> MountPoint list \<Rightarrow> call list" where
  "revert_calls substr procMounts =
     concat (map (\<lambda>v. [MounterUnmount (Path v), OsRemoveAll (Path v)])
                 (filter (\<lambda>v. Contains (Path v) substr) procMounts))"

text \<open>The calls of a trace that are not log lines.\<close>

fun is_log :: "call \<Rightarrow> bool" where
  "is_log (LogPrint l args) = True"
| "is_log (LogPrintf l format args) = True"
| "is_log c = False"

definition syscalls :: "trace \<Rightarrow> call list" where
  "syscalls t = filter (\<lambda>c. \<not> is_log c) (map fst t)"

text \<open>
  What a failed stop of a container adds to the messages: nothing when its message has
  the connection-refused text, else the failure with the container's name.
\<close>

fun stop_failure :: "event \<Rightarrow> string list" where
  "stop_failure (RuntimeStopContainer s container, Err (Some e)) =
     (if Contains e ''443: connect: connection refused'' then []
      else [''failed to stop running pod '' @ container @ '': err: '' @ e])"
| "stop_failure ev = []"

definition stop_failures :: "trace \<Rightarrow> string list" where
  "stop_failures t = concat (map stop_failure t)"

text \<open>
  The mount-table entries that \<open>RemoveAllDirectories\<close> is to unmount: those whose path
  is the data directory or its \<open>kubelet\<close> subdirectory.
\<close>

definition unmount_targets :: "CleanUpConfig \<Rightarrow> MountPoint list \<Rightarrow> MountPoint list" where
  "unmount_targets c procMounts =
     filter (\<lambda>v. Path v = dataDir c @ ''/kubelet'' \<or> Path v = dataDir c) procMounts"

text \<open>The message for a failed deletion of a path; none for a deletion that succeeded.\<close>

definition delete_failure :: "string \<Rightarrow> error \<Rightarrow> string list" where
  "delete_failure p r =
     (case r of None \<Rightarrow> [] | Some e \<Rightarrow> [''failed to delete '' @ p @ ''. err: '' @ e])"

text \<open>
  What the CNI leftover removal is to do, given the answers to its three deletions: the
  three deletions, then one debug line with the failures if there was any.
\<close>

definition cni_trace :: "error \<Rightarrow> error \<Rightarrow> error \<Rightarrow> trace" where
  "cni_trace r1 r2 r3 =
     [(OsRemove ''/etc/cni/net.d/10-calico.conflist'', Err r1),
      (OsRemove ''/etc/cni/net.d/calico-kubeconfig'', Err r2),
      (OsRemove ''/etc/cni/net.d/10-kuberouter.conflist'', Err r3)]
     @ (let msg = delete_failure ''/etc/cni/net.d/10-calico.conflist'' r1
                @ delete_failure ''/etc/cni/net.d/calico-kubeconfig'' r2
                @ delete_failure ''/etc/cni/net.d/10-kuberouter.conflist'' r3
        in if msg = [] then [] else [(LogPrintf DebugLevel (Join msg '', '') [], Unit)])"

text \<open>The line logged before the two directories are deleted.\<close>

definition deleting_line :: "CleanUpConfig \<Rightarrow> event" where
  "deleting_line c =
     (LogPrintf InfoLevel ''deleting k0s generated data-dir (%v) and run-dir (%v)''
        [ArgString (dataDir c), ArgString (runDir c)], Unit)"

section \<open>Concrete environments\<close>

text \<open>
  An environment in which every call succeeds, the mount table and the container list
  are empty, and a started process gets pid 4242; the concrete cases below change the
  answers they need.
\<close>

definition quiet_env :: env where
  "quiet_env =
     \<lparr>on_List = (\<lambda>h. Inr []),
      on_Unmount = (\<lambda>h p. None),
      on_RemoveAll = (\<lambda>h p. None),
      on_Remove = (\<lambda>h p. None),
      on_ListContainers = (\<lambda>h s. Inr []),
      on_StopContainer = (\<lambda>h s i. None),
      on_RemoveContainer = (\<lambda>h s i. None),
      on_Start = (\<lambda>h n a. Inr 4242),
      on_Signal = (\<lambda>h p s. None),
      on_Kill = (\<lambda>h p. None),
      filepath_Join = (\<lambda>a b. a @ ''/'' @ b)\<rparr>"

definition mount_at :: "string \<Rightarrow> MountPoint" where
  "mount_at p = \<lparr>Device = ''overlay'', Path = p, Type = ''overlay'', Opts = [], Freq = 0, Pass = 0\<rparr>"

definition example_mounts :: "MountPoint list" where
  "example_mounts =
     [mount_at ''/var/lib/kubelet/pods/x'', mount_at ''/var/lib/other'', mount_at ''/run/netns/y'']"

text \<open>The mount table of the example, where every unmount fails.\<close>

definition busy_env :: env where
  "busy_env =
     quiet_env\<lparr>on_List := (\<lambda>h. Inr example_mounts),
               on_Unmount := (\<lambda>h p. Some (''umount '' @ p @ '': target is busy''))\<rparr>"

text \<open>A configuration as \<open>NewCleanUpConfig\<close> builds it for an empty socket specification.\<close>

definition example_config :: CleanUpConfig where
  "example_config =
     \<lparr>containerd = Some \<lparr>binPath = ''/var/lib/k0s/bin/containerd'',
                          socketPath = ''/run/k0s/containerd.sock'',
                          cmd = None\<rparr>,
      containerRuntime = Some (CRIRuntime ''unix:////run/k0s/containerd.sock''),
      dataDir = ''/var/lib/k0s'',
      runDir = ''/run/k0s''\<rparr>"

text \<open>
  Three containers: stopping \<open>a\<close> is refused by the node's own API endpoint, stopping
  \<open>b\<close> times out, stopping \<open>c\<close> succeeds.
\<close>

definition stop_env :: env where
  "stop_env =
     quiet_env\<lparr>on_ListContainers := (\<lambda>h s. Inr [''a'', ''b'', ''c'']),
               on_StopContainer := (\<lambda>h s i.
                 if i = ''a'' then Some ''dial tcp 10.96.0.1:443: connect: connection refused''
                 else if i = ''b'' then Some ''context deadline exceeded''
                 else None)\<rparr>"

text \<open>A runtime whose container list cannot be read.\<close>

definition unreachable_env :: env where
  "unreachable_env = quiet_env\<lparr>on_ListContainers := (\<lambda>h s. Inl ''rpc error: unavailable'')\<rparr>"

text \<open>
  A stand-in for \<open>worker.SplitRuntimeConfig\<close> in the concrete cases: it accepts every
  specification as a remote runtime behind one socket.
\<close>

definition example_split :: "string \<Rightarrow> string \<times> string \<times> error" where
  "example_split s = (''remote'', ''unix:///var/run/crio.sock'', None)"

text \<open>
  The example configuration with a command whose process is known to have exited with
  code 0, as after \<open>Wait\<close>.
\<close>

definition exited_config :: CleanUpConfig where
  "exited_config =
     example_config\<lparr>containerd :=
       Some \<lparr>binPath = ''/var/lib/k0s/bin/containerd'',
             socketPath = ''/run/k0s/containerd.sock'',
             cmd = Some \<lparr>Process = Some 4242, ProcessState = Some (Exited 0)\<rparr>\<rparr>\<rparr>"

text \<open>The mount table cannot be read.\<close>

definition nolist_env :: env where
  "nolist_env = quiet_env\<lparr>on_List := (\<lambda>h. Inl ''open /proc/mounts: permission denied'')\<rparr>"

text \<open>The data directory is a mount point and its unmount fails; all deletions succeed.\<close>

definition mounted_env :: env where
  "mounted_env =
     quiet_env\<lparr>on_List := (\<lambda>h. Inr [mount_at ''/var/lib/k0s'']),
               on_Unmount := (\<lambda>h p. Some (''umount '' @ p @ '': target is busy''))\<rparr>"

text \<open>
  None of the three CNI files exists, and the data directory cannot be deleted; the run
  directory can.
\<close>

definition leftover_env :: env where
  "leftover_env =
     quiet_env\<lparr>on_Remove := (\<lambda>h p. Some (''remove '' @ p @ '': no such file or directory'')),
               on_RemoveAll := (\<lambda>h p.
                 if p = ''/var/lib/k0s'' then Some ''unlinkat /var/lib/k0s: device or resource busy''
                 else None)\<rparr>"

text \<open>None of the three CNI files exists; everything else succeeds.\<close>

definition nocni_env :: env where
  "nocni_env =
     quiet_env\<lparr>on_Remove := (\<lambda>h p. Some (''remove '' @ p @ '': no such file or directory''))\<rparr>"

section \<open>Library facts\<close>

lemma HasPrefix_iff: "HasPrefix s p \<longleftrightarrow> (\<exists>b. s = p @ b)"
  by (induction s p rule: HasPrefix.induct) auto

lemma Contains_iff: "Contains s substr \<longleftrightarrow> (\<exists>a b. s = a @ substr @ b)"
proof (induction s)
  case Nil
  then show ?case by simp
next
  case (Cons c s)
  show ?case
  proof
    assume "Contains (c # s) substr"
    then consider "HasPrefix (c # s) substr" | "Contains s substr" by auto
    then show "\<exists>a b. c # s = a @ substr @ b"
    proof cases
      case 1
      then obtain b where "c # s = substr @ b" by (auto simp: HasPrefix_iff)
      then have "c # s = [] @ substr @ b" by simp
      then show ?thesis by blast
    next
      case 2
      then obtain a b where "s = a @ substr @ b" using Cons.IH by blast
      then have "c # s = (c # a) @ substr @ b" by simp
      then show ?thesis by blast
    qed
  next
    assume "\<exists>a b. c # s = a @ substr @ b"
    then obtain a b where ab: "c # s = a @ substr @ b" by blast
    show "Contains (c # s) substr"
    proof (cases a)
      case Nil
      then have "HasPrefix (c # s) substr" using ab by (auto simp: HasPrefix_iff)
      then show ?thesis by simp
    next
      case (Cons x a')
      then have "s = a' @ substr @ b" using ab by simp
      then have "Contains s substr" using Cons.IH by blast
      then show ?thesis by simp
    qed
  qed
qed

section \<open>Facts about traces\<close>

lemma failure_Err: "failure (c, Err r) = (case r of None \<Rightarrow> [] | Some e \<Rightarrow> [e])"
  by (cases r) simp_all

lemma revert_calls_Cons:
  "revert_calls substr (v # vs) =
     (if Contains (Path v) substr then [MounterUnmount (Path v), OsRemoveAll (Path v)] else [])
     @ revert_calls substr vs"
  by (simp add: revert_calls_def)

section \<open>The mount reverters\<close>

text \<open>
  One round of either loop on a matching entry: the unmount, then the removal whatever
  the unmount answered, each failure appended to the messages.
\<close>

lemma cleanupMount_loop_trace:
  "\<exists>new. cleanupMount_loop env vs msg h = (msg @ failures new, h @ new)
       \<and> map fst new = revert_calls ''kubelet/pods'' vs"
proof (induction vs arbitrary: msg h)
  case Nil
  show ?case by (simp add: revert_calls_def failures_def)
next
  case (Cons v vs)
  show ?case
  proof (cases "Contains (Path v) ''kubelet/pods''")
    case False
    with Cons.IH[of msg h] show ?thesis by (simp add: revert_calls_Cons)
  next
    case True
    define r1 where "r1 = on_Unmount env h (Path v)"
    define h1 where "h1 = h @ [(MounterUnmount (Path v), Err r1)]"
    define r2 where "r2 = on_RemoveAll env h1 (Path v)"
    define h2 where "h2 = h1 @ [(OsRemoveAll (Path v), Err r2)]"
    define msg2 where
      "msg2 = msg @ failures [(MounterUnmount (Path v), Err r1), (OsRemoveAll (Path v), Err r2)]"
    have step: "cleanupMount_loop env (v # vs) msg h = cleanupMount_loop env vs msg2 h2"
      using True
      by (cases r1; cases r2)
         (simp_all add: mounter_Unmount_def os_RemoveAll_def Let_def r1_def h1_def r2_def h2_def
            msg2_def failures_def)
    from Cons.IH[of msg2 h2] obtain new where
      new: "cleanupMount_loop env vs msg2 h2 = (msg2 @ failures new, h2 @ new)"
      "map fst new = revert_calls ''kubelet/pods'' vs" by blast
    let ?new = "[(MounterUnmount (Path v), Err r1), (OsRemoveAll (Path v), Err r2)] @ new"
    have "cleanupMount_loop env (v # vs) msg h = (msg @ failures ?new, h @ ?new)"
      using step new(1) by (simp add: msg2_def h2_def h1_def failures_def)
    moreover have "map fst ?new = revert_calls ''kubelet/pods'' (v # vs)"
      using True new(2) by (simp add: revert_calls_Cons)
    ultimately show ?thesis by blast
  qed
qed

lemma cleanupNetworkNamespace_loop_trace:
  "\<exists>new. cleanupNetworkNamespace_loop env vs msg h = (msg @ failures new, h @ new)
       \<and> map fst new = revert_calls ''run/netns'' vs"
proof (induction vs arbitrary: msg h)
  case Nil
  show ?case by (simp add: revert_calls_def failures_def)
next
  case (Cons v vs)
  show ?case
  proof (cases "Contains (Path v) ''run/netns''")
    case False
    with Cons.IH[of msg h] show ?thesis by (simp add: revert_calls_Cons)
  next
    case True
    define r1 where "r1 = on_Unmount env h (Path v)"
    define h1 where "h1 = h @ [(MounterUnmount (Path v), Err r1)]"
    define r2 where "r2 = on_RemoveAll env h1 (Path v)"
    define h2 where "h2 = h1 @ [(OsRemoveAll (Path v), Err r2)]"
    define msg2 where
      "msg2 = msg @ failures [(MounterUnmount (Path v), Err r1), (OsRemoveAll (Path v), Err r2)]"
    have step:
      "cleanupNetworkNamespace_loop env (v # vs) msg h = cleanupNetworkNamespace_loop env vs msg2 h2"
      using True
      by (cases r1; cases r2)
         (simp_all add: mounter_Unmount_def os_RemoveAll_def Let_def r1_def h1_def r2_def h2_def
            msg2_def failures_def)
    from Cons.IH[of msg2 h2] obtain new where
      new: "cleanupNetworkNamespace_loop env vs msg2 h2 = (msg2 @ failures new, h2 @ new)"
      "map fst new = revert_calls ''run/netns'' vs" by blast
    let ?new = "[(MounterUnmount (Path v), Err r1), (OsRemoveAll (Path v), Err r2)] @ new"
    have "cleanupNetworkNamespace_loop env (v # vs) msg h = (msg @ failures ?new, h @ ?new)"
      using step new(1) by (simp add: msg2_def h2_def h1_def failures_def)
    moreover have "map fst ?new = revert_calls ''run/netns'' (v # vs)"
      using True new(2) by (simp add: revert_calls_Cons)
    ultimately show ?thesis by blast
  qed
qed

lemma cleanupMount_trace:
  assumes "on_List env h = Inr procMounts"
  shows "\<exists>new. cleanupMount c env h =
            (joined (failures new), h @ (MounterList, Mounts (Inr procMounts)) # new)
          \<and> map fst new = revert_calls ''kubelet/pods'' procMounts"
proof -
  obtain new where
    new: "cleanupMount_loop env procMounts [] (h @ [(MounterList, Mounts (Inr procMounts))])
            = ([] @ failures new, (h @ [(MounterList, Mounts (Inr procMounts))]) @ new)"
      "map fst new = revert_calls ''kubelet/pods'' procMounts"
    using cleanupMount_loop_trace by blast
  have "cleanupMount c env h =
          (joined (failures new), h @ (MounterList, Mounts (Inr procMounts)) # new)"
    using assms new(1) by (simp add: cleanupMount_def mounter_List_def joined_def Let_def)
  then show ?thesis using new(2) by blast
qed

lemma cleanupNetworkNamespace_trace:
  assumes "on_List env h = Inr procMounts"
  shows "\<exists>new. cleanupNetworkNamespace c env h =
            (joined (failures new), h @ (MounterList, Mounts (Inr procMounts)) # new)
          \<and> map fst new = revert_calls ''run/netns'' procMounts"
proof -
  obtain new where
    new: "cleanupNetworkNamespace_loop env procMounts []
            (h @ [(MounterList, Mounts (Inr procMounts))])
            = ([] @ failures new, (h @ [(MounterList, Mounts (Inr procMounts))]) @ new)"
      "map fst new = revert_calls ''run/netns'' procMounts"
    using cleanupNetworkNamespace_loop_trace by blast
  have "cleanupNetworkNamespace c env h =
          (joined (failures new), h @ (MounterList, Mounts (Inr procMounts)) # new)"
    using assms new(1)
    by (simp add: cleanupNetworkNamespace_def mounter_List_def joined_def Let_def)
  then show ?thesis using new(2) by blast
qed

lemma example_revert_calls:
  assumes "map Path procMounts = [''/var/lib/kubelet/pods/x'', ''/var/lib/other'', ''/run/netns/y'']"
  shows "revert_calls ''kubelet/pods'' procMounts =
           [MounterUnmount ''/var/lib/kubelet/pods/x'', OsRemoveAll ''/var/lib/kubelet/pods/x'']"
  using assms by (auto simp: revert_calls_def)

text \<open>
  C1. When the mount table is read, \<open>cleanupMount\<close> (substring \<open>kubelet/pods\<close>) and
  \<open>cleanupNetworkNamespace\<close> (substring \<open>run/netns\<close>) make, after the read, exactly
  these calls: for each entry whose path has the substring, in table order, an unmount of
  the path and then a recursive removal of the path, whatever the unmount answered; no call
  for any other entry. The error returned is nil when none of these calls failed, and
  otherwise the messages of all the failed calls, in order, joined with a comma. For the
  table with the paths \<open>/var/lib/kubelet/pods/x\<close>, \<open>/var/lib/other\<close> and
  \<open>/run/netns/y\<close>, \<open>cleanupMount\<close> unmounts and removes \<open>/var/lib/kubelet/pods/x\<close>
  and nothing else.
\<close>

theorem mount_reverters_unmount_and_remove_matching_entries:
  assumes "on_List env h = Inr procMounts"
  shows "(\<exists>new. cleanupMount c env h =
              (joined (failures new), h @ (MounterList, Mounts (Inr procMounts)) # new)
            \<and> map fst new = revert_calls ''kubelet/pods'' procMounts)
       \<and> (\<exists>new. cleanupNetworkNamespace c env h =
              (joined (failures new), h @ (MounterList, Mounts (Inr procMounts)) # new)
            \<and> map fst new = revert_calls ''run/netns'' procMounts)
       \<and> (map Path procMounts =
             [''/var/lib/kubelet/pods/x'', ''/var/lib/other'', ''/run/netns/y'']
           \<longrightarrow> map fst (snd (cleanupMount c env h)) =
                 map fst h @ [MounterList, MounterUnmount ''/var/lib/kubelet/pods/x'',
                              OsRemoveAll ''/var/lib/kubelet/pods/x''])"
proof (intro conjI impI)
  show "\<exists>new. cleanupMount c env h =
              (joined (failures new), h @ (MounterList, Mounts (Inr procMounts)) # new)
            \<and> map fst new = revert_calls ''kubelet/pods'' procMounts"
    using assms by (rule cleanupMount_trace)
  show "\<exists>new. cleanupNetworkNamespace c env h =
              (joined (failures new), h @ (MounterList, Mounts (Inr procMounts)) # new)
            \<and> map fst new = revert_calls ''run/netns'' procMounts"
    using assms by (rule cleanupNetworkNamespace_trace)
next
  assume ex: "map Path procMounts =
                [''/var/lib/kubelet/pods/x'', ''/var/lib/other'', ''/run/netns/y'']"
  obtain new where
    new: "cleanupMount c env h =
            (joined (failures new), h @ (MounterList, Mounts (Inr procMounts)) # new)"
      "map fst new = revert_calls ''kubelet/pods'' procMounts"
    using cleanupMount_trace[OF assms] by blast
  show "map fst (snd (cleanupMount c env h)) =
          map fst h @ [MounterList, MounterUnmount ''/var/lib/kubelet/pods/x'',
                       OsRemoveAll ''/var/lib/kubelet/pods/x'']"
    using new example_revert_calls[OF ex] by simp
qed

text \<open>
  The example table with every unmount failing: the removal of the one matching path is
  still attempted, and the failed unmount is the returned error.
\<close>

theorem mount_reverters_witness:
  "on_List busy_env [] = Inr example_mounts
   \<and> map Path example_mounts = [''/var/lib/kubelet/pods/x'', ''/var/lib/other'', ''/run/netns/y'']
   \<and> cleanupMount example_config busy_env [] =
       (Some ''umount /var/lib/kubelet/pods/x: target is busy'',
        [(MounterList, Mounts (Inr example_mounts)),
         (MounterUnmount ''/var/lib/kubelet/pods/x'',
            Err (Some ''umount /var/lib/kubelet/pods/x: target is busy'')),
         (OsRemoveAll ''/var/lib/kubelet/pods/x'', Err None)])
   \<and> map fst (snd (cleanupNetworkNamespace example_config busy_env [])) =
       [MounterList, MounterUnmount ''/run/netns/y'', OsRemoveAll ''/run/netns/y'']"
  using mount_reverters_unmount_and_remove_matching_entries
          [of busy_env "[]" example_mounts example_config]
  by (simp add: cleanupMount_def cleanupNetworkNamespace_def mounter_List_def busy_env_def
        quiet_env_def example_mounts_def mount_at_def mounter_Unmount_def os_RemoveAll_def Let_def)

section \<open>The container phases\<close>

lemma syscalls_append: "syscalls (a @ b) = syscalls a @ syscalls b"
  by (simp add: syscalls_def)

lemma stop_failures_append: "stop_failures (a @ b) = stop_failures a @ stop_failures b"
  by (simp add: stop_failures_def)

lemma stopAllContainers_loop_trace:
  assumes rt: "containerRuntime c = Some (CRIRuntime s)"
  shows "\<exists>new. stopAllContainers_loop c env cs msg h = (Return (msg @ stop_failures new), h @ new)
       \<and> syscalls new = map (RuntimeStopContainer s) cs"
proof (induction cs arbitrary: msg h)
  case Nil
  show ?case by (simp add: stop_failures_def syscalls_def)
next
  case (Cons container cs)
  define lg where
    "lg = (LogPrintf DebugLevel ''stopping container: %v'' [ArgString container], Unit)"
  define r where "r = on_StopContainer env (h @ [lg]) s container"
  define st where "st = (RuntimeStopContainer s container, Err r)"
  define h2 where "h2 = h @ [lg, st]"
  define extra where "extra = (case r of
      Some e \<Rightarrow> if Contains e ''443: connect: connection refused''
                then [(LogPrintf DebugLevel ''ignoring container stop err: %v'' [ArgString e], Unit)]
                else []
    | None \<Rightarrow> [])"
  define msg2 where "msg2 = msg @ stop_failure st"
  have step: "stopAllContainers_loop c env (container # cs) msg h
                = stopAllContainers_loop c env cs msg2 (h2 @ extra)"
    using rt
    by (cases r)
       (simp_all add: StopContainer_def logrus_printf_def Let_def lg_def r_def st_def h2_def
          extra_def msg2_def)
  from Cons.IH[of msg2 "h2 @ extra"] obtain new where
    new: "stopAllContainers_loop c env cs msg2 (h2 @ extra)
            = (Return (msg2 @ stop_failures new), (h2 @ extra) @ new)"
      "syscalls new = map (RuntimeStopContainer s) cs" by blast
  let ?new = "[lg, st] @ extra @ new"
  have ex: "stop_failures extra = []" "syscalls extra = []"
    by (auto simp: extra_def stop_failures_def syscalls_def split: option.splits)
  have "stop_failures ?new = stop_failure st @ stop_failures new"
    using ex(1) by (simp add: stop_failures_append) (simp add: stop_failures_def lg_def)
  moreover have "syscalls ?new = RuntimeStopContainer s container # syscalls new"
    using ex(2) by (simp add: syscalls_append) (simp add: syscalls_def lg_def st_def)
  ultimately have
    "stopAllContainers_loop c env (container # cs) msg h
       = (Return (msg @ stop_failures ?new), h @ ?new)
     \<and> syscalls ?new = map (RuntimeStopContainer s) (container # cs)"
    using step new by (simp add: msg2_def h2_def)
  then show ?case by blast
qed

text \<open>
  C2. With a runtime client and a container list that could be read,
  \<open>stopAllContainers\<close> calls \<open>StopContainer\<close> once for every listed container, in
  order, whatever the earlier stops answered (the log lines apart, it makes no other
  call). Its error is built from the failed stops alone: a failure whose message contains
  \<open>443: connect: connection refused\<close> adds nothing, every other failure adds
  \<open>failed to stop running pod <container>: err: <message>\<close>; the result is nil when
  nothing was added and the comma-joined messages otherwise.
\<close>

theorem stopAllContainers_ignores_connection_refused:
  assumes "containerRuntime c = Some (CRIRuntime s)"
      and "on_ListContainers env h s = Inr containers"
  shows "\<exists>new. stopAllContainers c env h =
            (Return (joined (stop_failures new)),
             h @ (RuntimeListContainers s, Containers (Inr containers)) # new)
          \<and> syscalls new = map (RuntimeStopContainer s) containers"
proof -
  let ?h1 = "h @ [(RuntimeListContainers s, Containers (Inr containers))]"
  obtain new where
    new: "stopAllContainers_loop c env containers [] ?h1
            = (Return ([] @ stop_failures new), ?h1 @ new)"
      "syscalls new = map (RuntimeStopContainer s) containers"
    using stopAllContainers_loop_trace[OF assms(1)] by blast
  have "stopAllContainers c env h =
          (Return (joined (stop_failures new)),
           h @ (RuntimeListContainers s, Containers (Inr containers)) # new)"
    using assms new(1)
    by (simp add: stopAllContainers_def ListContainers_def joined_def Let_def)
  then show ?thesis using new(2) by blast
qed

text \<open>
  Three containers: the refused stop of \<open>a\<close> is not in the error, the timed-out stop of
  \<open>b\<close> is, and \<open>c\<close> is still stopped after both failures.
\<close>

theorem stopAllContainers_witness:
  "containerRuntime example_config = Some (CRIRuntime ''unix:////run/k0s/containerd.sock'')
   \<and> on_ListContainers stop_env [] ''unix:////run/k0s/containerd.sock'' = Inr [''a'', ''b'', ''c'']
   \<and> fst (stopAllContainers example_config stop_env []) =
       Return (Some ''failed to stop running pod b: err: context deadline exceeded'')
   \<and> syscalls (snd (stopAllContainers example_config stop_env [])) =
       [RuntimeListContainers ''unix:////run/k0s/containerd.sock'',
        RuntimeStopContainer ''unix:////run/k0s/containerd.sock'' ''a'',
        RuntimeStopContainer ''unix:////run/k0s/containerd.sock'' ''b'',
        RuntimeStopContainer ''unix:////run/k0s/containerd.sock'' ''c'']"
  using stopAllContainers_ignores_connection_refused
          [of example_config "''unix:////run/k0s/containerd.sock''" stop_env "[]"
              "[''a'', ''b'', ''c'']"]
  by (simp add: stopAllContainers_def ListContainers_def StopContainer_def logrus_printf_def
        example_config_def stop_env_def quiet_env_def syscalls_def Let_def)

text \<open>
  C7. With a runtime client whose \<open>ListContainers\<close> returns an error,
  \<open>stopAllContainers\<close> and \<open>removeAllContainers\<close> each return that error, and the
  listing is the only call they make: no container is stopped or removed.
\<close>

theorem container_phases_return_the_list_error:
  assumes "containerRuntime c = Some (CRIRuntime s)"
      and "on_ListContainers env h s = Inl err"
  shows "stopAllContainers c env h =
           (Return (Some err), h @ [(RuntimeListContainers s, Containers (Inl err))])
       \<and> removeAllContainers c env h =
           (Return (Some err), h @ [(RuntimeListContainers s, Containers (Inl err))])"
  using assms
  by (simp add: stopAllContainers_def removeAllContainers_def ListContainers_def Let_def)

theorem container_phases_list_error_witness:
  "containerRuntime example_config = Some (CRIRuntime ''unix:////run/k0s/containerd.sock'')
   \<and> on_ListContainers unreachable_env [] ''unix:////run/k0s/containerd.sock''
       = Inl ''rpc error: unavailable''
   \<and> stopAllContainers example_config unreachable_env [] =
       (Return (Some ''rpc error: unavailable''),
        [(RuntimeListContainers ''unix:////run/k0s/containerd.sock'',
          Containers (Inl ''rpc error: unavailable''))])
   \<and> removeAllContainers example_config unreachable_env [] =
       (Return (Some ''rpc error: unavailable''),
        [(RuntimeListContainers ''unix:////run/k0s/containerd.sock'',
          Containers (Inl ''rpc error: unavailable''))])"
  using container_phases_return_the_list_error
          [of example_config "''unix:////run/k0s/containerd.sock''" unreachable_env "[]"
              "''rpc error: unavailable''"]
  by (simp add: example_config_def unreachable_env_def quiet_env_def)

section \<open>Construction and the daemon handle\<close>

text \<open>
  C5. For every \<open>SplitRuntimeConfig\<close>: with the empty socket specification
  \<open>NewCleanUpConfig\<close> returns, without error, the configuration whose daemon handle is
  set (binary \<open><dataDir>/bin/containerd\<close>, socket \<open><runDir>/containerd.sock\<close>, no
  command yet), whose run directory is \<open>/run/k0s\<close> and whose runtime is the one
  \<open>NewContainerRuntime\<close> gives for the kind \<open>cri\<close> and the address
  \<open>unix:///<runDir>/containerd.sock\<close>, a CRI client; and whenever it returns a
  configuration at all, the daemon handle is set exactly when the specification was empty.
\<close>

theorem NewCleanUpConfig_daemon_handle_iff_empty_specification:
  "NewCleanUpConfig split dDir [] =
     (Some \<lparr>containerd = Some \<lparr>binPath = dDir @ ''/bin/containerd'',
                                socketPath = ''/run/k0s'' @ ''/containerd.sock'',
                                cmd = None\<rparr>,
            containerRuntime =
              fst (NewContainerRuntime ''cri'' (''unix:///'' @ ''/run/k0s'' @ ''/containerd.sock'')),
            dataDir = dDir,
            runDir = ''/run/k0s''\<rparr>, None)
   \<and> fst (NewContainerRuntime ''cri'' (''unix:///'' @ ''/run/k0s'' @ ''/containerd.sock'')) =
       Some (CRIRuntime ''unix:////run/k0s/containerd.sock'')
   \<and> (\<forall>cfg. fst (NewCleanUpConfig split dDir criSocketPath) = Some cfg
          \<longrightarrow> (containerd cfg \<noteq> None \<longleftrightarrow> criSocketPath = []))"
  by (auto simp: NewCleanUpConfig_def NewContainerRuntime_def Let_def
           split: prod.splits option.splits if_splits)

text \<open>An external socket: a configuration is returned and it has no daemon handle.\<close>

theorem NewCleanUpConfig_external_socket_witness:
  "fst (NewCleanUpConfig example_split ''/var/lib/k0s'' ''remote:unix:///var/run/crio.sock'') =
     Some \<lparr>containerd = None,
           containerRuntime = Some (CRIRuntime ''unix:///var/run/crio.sock''),
           dataDir = ''/var/lib/k0s'',
           runDir = ''/run/k0s''\<rparr>
   \<and> containerd \<lparr>containerd = None,
           containerRuntime = Some (CRIRuntime ''unix:///var/run/crio.sock''),
           dataDir = ''/var/lib/k0s'',
           runDir = ''/run/k0s''\<rparr> = None
   \<and> ''remote:unix:///var/run/crio.sock'' \<noteq> []
   \<and> fst (NewCleanUpConfig example_split ''/var/lib/k0s'' []) = Some example_config"
  using NewCleanUpConfig_daemon_handle_iff_empty_specification
          [of example_split "''/var/lib/k0s''" "''remote:unix:///var/run/crio.sock''"]
  by (simp add: NewCleanUpConfig_def NewContainerRuntime_def example_split_def
        example_config_def Let_def)

text \<open>
  C6. \<open>NewContainerRuntime\<close> for the kind \<open>docker\<close> returns the nil runtime together
  with the nil error, so nothing tells the caller that the kind is not supported; a
  configuration holding that runtime panics in \<open>stopAllContainers\<close> and in
  \<open>removeAllContainers\<close> at the first method call.
\<close>

theorem NewContainerRuntime_docker_is_nil_without_error:
  "NewContainerRuntime ''docker'' criSocketPath = (None, None)
   \<and> fst (stopAllContainers
            (c\<lparr>containerRuntime := fst (NewContainerRuntime ''docker'' criSocketPath)\<rparr>) env h)
       = Panic
   \<and> fst (removeAllContainers
            (c\<lparr>containerRuntime := fst (NewContainerRuntime ''docker'' criSocketPath)\<rparr>) env h)
       = Panic"
  by (simp add: NewContainerRuntime_def stopAllContainers_def removeAllContainers_def
        ListContainers_def)

section \<open>Stopping the daemon\<close>

lemma ExitCode_iff: "ExitCode p \<noteq> - 1 \<longleftrightarrow> (\<exists>n. p = Some (Exited n))"
  by (auto simp: ExitCode_def split: option.splits ProcessState.splits)

lemma stopContainerd_calls:
  assumes "containerd c = Some d" "cmd d = Some m" "Process m = Some pid"
  shows "fst (stopContainerd c env h) = Return ()
       \<and> syscalls (snd (stopContainerd c env h)) =
           syscalls h @ ProcessSignal pid Interrupt #
             (if ExitCode (ProcessState m) \<noteq> - 1
              then [TimeSleep (5 * Second), ProcessKill pid] else [])"
  using assms
  by (auto simp: stopContainerd_def Let_def process_Signal_def process_Kill_def time_Sleep_def
        logrus_print_def logrus_printf_def syscalls_def split: option.splits)

lemma startContainerd_started:
  assumes "startContainerd c env h0 = (Return (None, c'), h1)"
  shows "\<exists>d pid. containerd c' = Some d
           \<and> cmd d = Some \<lparr>Process = Some pid, ProcessState = None\<rparr>"
  using assms
  by (auto simp: startContainerd_def Let_def cmd_Start_def split: option.splits sum.splits)

text \<open>
  C3. On a configuration with a started command, \<open>stopContainerd\<close> returns (no signal
  failure is raised) and, the log lines apart, sends the interrupt and then decides on
  the exit code recorded in the command before any waiting: it sleeps five seconds and
  sends the kill exactly when the command records a process that exited by itself, and
  does neither otherwise. After a successful \<open>startContainerd\<close> the command records
  no process state, so the kill is never sent, whether or not the daemon is still running.
\<close>

theorem stopContainerd_kills_only_a_recorded_exit:
  "(\<forall>d m pid. containerd c = Some d \<and> cmd d = Some m \<and> Process m = Some pid \<longrightarrow>
       fst (stopContainerd c env h) = Return ()
       \<and> syscalls (snd (stopContainerd c env h)) =
           syscalls h @ ProcessSignal pid Interrupt #
             (if (\<exists>n. ProcessState m = Some (Exited n))
              then [TimeSleep (5 * Second), ProcessKill pid] else []))
   \<and> (\<forall>c' h0 h1. startContainerd c env h0 = (Return (None, c'), h1) \<longrightarrow>
         (\<exists>pid. syscalls (snd (stopContainerd c' env h)) =
                  syscalls h @ [ProcessSignal pid Interrupt]))"
proof (intro conjI allI impI)
  fix d m pid
  assume a: "containerd c = Some d \<and> cmd d = Some m \<and> Process m = Some pid"
  then show "fst (stopContainerd c env h) = Return ()"
    using stopContainerd_calls[of c d m pid env h] by simp
  show "syscalls (snd (stopContainerd c env h)) =
          syscalls h @ ProcessSignal pid Interrupt #
            (if (\<exists>n. ProcessState m = Some (Exited n))
             then [TimeSleep (5 * Second), ProcessKill pid] else [])"
    using a stopContainerd_calls[of c d m pid env h] ExitCode_iff[of "ProcessState m"]
    by simp
next
  fix c' h0 h1
  assume "startContainerd c env h0 = (Return (None, c'), h1)"
  then obtain d pid where
    d: "containerd c' = Some d" "cmd d = Some \<lparr>Process = Some pid, ProcessState = None\<rparr>"
    using startContainerd_started by blast
  have "syscalls (snd (stopContainerd c' env h)) = syscalls h @ [ProcessSignal pid Interrupt]"
    using stopContainerd_calls[OF d(1) d(2), of pid env h] by (simp add: ExitCode_def)
  then show "\<exists>pid. syscalls (snd (stopContainerd c' env h)) =
                    syscalls h @ [ProcessSignal pid Interrupt]"
    by blast
qed

text \<open>
  The daemon started by \<open>startContainerd\<close> gets the interrupt and nothing else; the
  command that records an exit with code 0 gets the five seconds and the kill.
\<close>

theorem stopContainerd_kill_witness:
  "startContainerd example_config quiet_env [] =
     (Return (None,
        example_config\<lparr>containerd :=
          Some \<lparr>binPath = ''/var/lib/k0s/bin/containerd'',
                socketPath = ''/run/k0s/containerd.sock'',
                cmd = Some \<lparr>Process = Some 4242, ProcessState = None\<rparr>\<rparr>\<rparr>),
      [(CmdStart ''/var/lib/k0s/bin/containerd''
          [''--root=/var/lib/k0s/containerd'', ''--state=/run/k0s/containerd'',
           ''--address=/run/k0s/containerd.sock'', ''--config=/etc/k0s/containerd.toml''],
        Started (Inr 4242))])
   \<and> stopContainerd
       (example_config\<lparr>containerd :=
          Some \<lparr>binPath = ''/var/lib/k0s/bin/containerd'',
                socketPath = ''/run/k0s/containerd.sock'',
                cmd = Some \<lparr>Process = Some 4242, ProcessState = None\<rparr>\<rparr>\<rparr>) quiet_env [] =
     (Return (),
      [(LogPrint DebugLevel [ArgString ''attempting to stop containerd''], Unit),
       (LogPrintf DebugLevel ''found containerd pid: %v'' [ArgInt 4242], Unit),
       (ProcessSignal 4242 Interrupt, Err None),
       (LogPrint DebugLevel [ArgString ''successfully stopped containerd''], Unit)])
   \<and> syscalls (snd (stopContainerd exited_config quiet_env [])) =
       [ProcessSignal 4242 Interrupt, TimeSleep 5000000000, ProcessKill 4242]"
  using stopContainerd_kills_only_a_recorded_exit[of example_config quiet_env "[]"]
  by (simp add: startContainerd_def stopContainerd_def cmd_Start_def process_Signal_def
        process_Kill_def time_Sleep_def logrus_print_def logrus_printf_def ExitCode_def
        Second_def syscalls_def example_config_def exited_config_def quiet_env_def Let_def)

text \<open>
  C10. \<open>stopContainerd\<close> panics on a configuration without a daemon handle and on one
  whose handle has no command yet; so it panics on every configuration that
  \<open>NewCleanUpConfig\<close> returns for a non-empty socket specification, and on the one it
  returns for the empty specification as long as \<open>startContainerd\<close> has not run. On
  the configuration that a successful \<open>startContainerd\<close> returns it does not panic:
  it returns.
\<close>

theorem stopContainerd_needs_a_started_daemon:
  "(containerd c = None \<longrightarrow> fst (stopContainerd c env h) = Panic)
   \<and> (\<forall>d. containerd c = Some d \<and> cmd d = None \<longrightarrow> fst (stopContainerd c env h) = Panic)
   \<and> (\<forall>cfg. criSocketPath \<noteq> [] \<and> fst (NewCleanUpConfig split dDir criSocketPath) = Some cfg
          \<longrightarrow> fst (stopContainerd cfg env h) = Panic)
   \<and> (\<forall>cfg. fst (NewCleanUpConfig split dDir []) = Some cfg
          \<longrightarrow> fst (stopContainerd cfg env h) = Panic)
   \<and> (\<forall>c' h0 h1. startContainerd c env h0 = (Return (None, c'), h1)
          \<longrightarrow> fst (stopContainerd c' env h) = Return ())"
proof (intro conjI allI impI)
  show "fst (stopContainerd c env h) = Panic" if "containerd c = None"
    using that by (simp add: stopContainerd_def Let_def)
  show "fst (stopContainerd c env h) = Panic" if "containerd c = Some d \<and> cmd d = None" for d
    using that by (simp add: stopContainerd_def Let_def)
  show "fst (stopContainerd cfg env h) = Panic"
    if "criSocketPath \<noteq> [] \<and> fst (NewCleanUpConfig split dDir criSocketPath) = Some cfg" for cfg
  proof -
    have "containerd cfg = None"
      using that
      by (auto simp: NewCleanUpConfig_def Let_def split: prod.splits option.splits)
    then show ?thesis by (simp add: stopContainerd_def Let_def)
  qed
  show "fst (stopContainerd cfg env h) = Panic"
    if "fst (NewCleanUpConfig split dDir []) = Some cfg" for cfg
    using that by (auto simp: NewCleanUpConfig_def stopContainerd_def Let_def)
  show "fst (stopContainerd c' env h) = Return ()"
    if started: "startContainerd c env h0 = (Return (None, c'), h1)" for c' h0 h1
  proof -
    obtain d pid where
      d: "containerd c' = Some d" "cmd d = Some \<lparr>Process = Some pid, ProcessState = None\<rparr>"
      using startContainerd_started[OF started] by blast
    show ?thesis using stopContainerd_calls[OF d(1) d(2), of pid env h] by simp
  qed
qed

theorem stopContainerd_needs_a_started_daemon_witness:
  "fst (NewCleanUpConfig example_split ''/var/lib/k0s'' ''remote:unix:///var/run/crio.sock'') =
     Some \<lparr>containerd = None,
           containerRuntime = Some (CRIRuntime ''unix:///var/run/crio.sock''),
           dataDir = ''/var/lib/k0s'',
           runDir = ''/run/k0s''\<rparr>
   \<and> stopContainerd \<lparr>containerd = None,
           containerRuntime = Some (CRIRuntime ''unix:///var/run/crio.sock''),
           dataDir = ''/var/lib/k0s'',
           runDir = ''/run/k0s''\<rparr> quiet_env [] =
       (Panic, [(LogPrint DebugLevel [ArgString ''attempting to stop containerd''], Unit)])
   \<and> fst (NewCleanUpConfig example_split ''/var/lib/k0s'' []) = Some example_config
   \<and> stopContainerd example_config quiet_env [] =
       (Panic, [(LogPrint DebugLevel [ArgString ''attempting to stop containerd''], Unit)])
   \<and> (\<exists>c' h1. startContainerd example_config quiet_env [] = (Return (None, c'), h1)
         \<and> fst (stopContainerd c' quiet_env []) = Return ())"
  using stopContainerd_needs_a_started_daemon
          [of example_config quiet_env "[]" "''remote:unix:///var/run/crio.sock''"
              example_split "''/var/lib/k0s''"]
  by (simp add: NewCleanUpConfig_def NewContainerRuntime_def example_split_def
        startContainerd_def stopContainerd_def cmd_Start_def process_Signal_def
        logrus_print_def logrus_printf_def ExitCode_def
        example_config_def quiet_env_def Let_def)

section \<open>Facts about directory erasure\<close>

lemma Compare_eq0: "Compare a b = 0 \<longleftrightarrow> a = b"
  by (induction a b rule: Compare.induct) auto

lemma RemoveAllDirectories_loop_trace:
  "\<exists>new. RemoveAllDirectories_loop c env vs msg h = (msg @ failures new, h @ new)
       \<and> syscalls new = map (\<lambda>v. MounterUnmount (Path v)) (unmount_targets c vs)"
proof (induction vs arbitrary: msg h)
  case Nil
  show ?case by (simp add: failures_def syscalls_def unmount_targets_def)
next
  case (Cons v vs)
  show ?case
  proof (cases "Path v = dataDir c @ ''/kubelet'' \<or> Path v = dataDir c")
    case False
    with Cons.IH[of msg h] show ?thesis by (simp add: unmount_targets_def Compare_eq0)
  next
    case True
    define lg where "lg = (LogPrintf DebugLevel ''%v is mounted! attempting to unmount...''
                    [ArgString (Path v)], Unit)"
    define r where "r = on_Unmount env (h @ [lg]) (Path v)"
    define um where "um = (MounterUnmount (Path v), Err r)"
    define msg1 where "msg1 = msg @ failure um"
    have step: "RemoveAllDirectories_loop c env (v # vs) msg h
                  = RemoveAllDirectories_loop c env vs msg1 (h @ [lg, um])"
      using True
      by (cases r)
         (auto simp: Compare_eq0 mounter_Unmount_def logrus_printf_def Let_def lg_def r_def
            um_def msg1_def)
    from Cons.IH[of msg1 "h @ [lg, um]"] obtain new where
      new: "RemoveAllDirectories_loop c env vs msg1 (h @ [lg, um])
              = (msg1 @ failures new, (h @ [lg, um]) @ new)"
        "syscalls new = map (\<lambda>v. MounterUnmount (Path v)) (unmount_targets c vs)" by blast
    let ?new = "[lg, um] @ new"
    have "failures ?new = failure um @ failures new"
      by (simp add: failures_def lg_def)
    moreover have "syscalls ?new = MounterUnmount (Path v) # syscalls new"
      by (simp add: syscalls_def lg_def um_def)
    ultimately have
      "RemoveAllDirectories_loop c env (v # vs) msg h = (msg @ failures ?new, h @ ?new)
       \<and> syscalls ?new = map (\<lambda>v. MounterUnmount (Path v)) (unmount_targets c (v # vs))"
      using step new True by (simp add: msg1_def unmount_targets_def)
    then show ?thesis by blast
  qed
qed

lemma removeCNILeftovers_trace:
  "\<exists>r1 r2 r3. removeCNILeftovers env h = h @ cni_trace r1 r2 r3"
proof -
  define r1 where "r1 = on_Remove env h ''/etc/cni/net.d/10-calico.conflist''"
  define h1 where "h1 = h @ [(OsRemove ''/etc/cni/net.d/10-calico.conflist'', Err r1)]"
  define r2 where "r2 = on_Remove env h1 ''/etc/cni/net.d/calico-kubeconfig''"
  define h2 where "h2 = h1 @ [(OsRemove ''/etc/cni/net.d/calico-kubeconfig'', Err r2)]"
  define r3 where "r3 = on_Remove env h2 ''/etc/cni/net.d/10-kuberouter.conflist''"
  have "removeCNILeftovers env h = h @ cni_trace r1 r2 r3"
    unfolding removeCNILeftovers_def cni_trace_def os_Remove_def logrus_printf_def Let_def
      delete_failure_def
    by (cases r1; cases r2; cases r3)
       (simp_all add: r1_def h1_def r2_def h2_def r3_def)
  then show ?thesis by blast
qed

lemma syscalls_cni_trace:
  "syscalls (cni_trace r1 r2 r3) =
     [OsRemove ''/etc/cni/net.d/10-calico.conflist'',
      OsRemove ''/etc/cni/net.d/calico-kubeconfig'',
      OsRemove ''/etc/cni/net.d/10-kuberouter.conflist'']"
  by (simp add: cni_trace_def syscalls_def Let_def)

lemma RemoveAllDirectories_list_error:
  assumes "on_List env h = Inl err"
  shows "RemoveAllDirectories c env h = (Some err, h @ [(MounterList, Mounts (Inl err))])"
  using assms by (simp add: RemoveAllDirectories_def mounter_List_def Let_def)

lemma RemoveAllDirectories_trace:
  assumes "on_List env h = Inr procMounts"
  shows "\<exists>um r1 r2 r3 d1 d2.
           RemoveAllDirectories c env h =
             (joined (failures um @ delete_failure (dataDir c) d1 @ delete_failure (runDir c) d2),
              h @ (MounterList, Mounts (Inr procMounts)) # um @ cni_trace r1 r2 r3
                @ [deleting_line c, (OsRemoveAll (dataDir c), Err d1),
                   (OsRemoveAll (runDir c), Err d2)])
         \<and> syscalls um = map (\<lambda>v. MounterUnmount (Path v)) (unmount_targets c procMounts)"
proof -
  let ?h1 = "h @ [(MounterList, Mounts (Inr procMounts))]"
  obtain um where
    um: "RemoveAllDirectories_loop c env procMounts [] ?h1 = ([] @ failures um, ?h1 @ um)"
      "syscalls um = map (\<lambda>v. MounterUnmount (Path v)) (unmount_targets c procMounts)"
    using RemoveAllDirectories_loop_trace by blast
  obtain r1 r2 r3 where
    cni: "removeCNILeftovers env (?h1 @ um) = (?h1 @ um) @ cni_trace r1 r2 r3"
    using removeCNILeftovers_trace by blast
  define h4 where "h4 = (?h1 @ um) @ cni_trace r1 r2 r3 @ [deleting_line c]"
  define d1 where "d1 = on_RemoveAll env h4 (dataDir c)"
  define h5 where "h5 = h4 @ [(OsRemoveAll (dataDir c), Err d1)]"
  define d2 where "d2 = on_RemoveAll env h5 (runDir c)"
  have "RemoveAllDirectories c env h =
          (joined (failures um @ delete_failure (dataDir c) d1 @ delete_failure (runDir c) d2),
           h @ (MounterList, Mounts (Inr procMounts)) # um @ cni_trace r1 r2 r3
             @ [deleting_line c, (OsRemoveAll (dataDir c), Err d1),
                (OsRemoveAll (runDir c), Err d2)])"
    using assms um(1) cni
    by (cases d1; cases d2)
       (simp_all add: RemoveAllDirectories_def mounter_List_def os_RemoveAll_def
          logrus_printf_def deleting_line_def joined_def delete_failure_def Let_def
          h4_def d1_def h5_def d2_def)
  then show ?thesis using um(2) by blast
qed

text \<open>
  C4, as the code has it. When the mount table cannot be read, \<open>RemoveAllDirectories\<close>
  returns that error and does nothing else. When it is read, the four steps run in order,
  whatever the earlier ones answered: the unmount of every entry whose path is the data
  directory or its \<open>kubelet\<close> subdirectory, the three CNI deletions, the recursive
  deletion of the data directory, and that of the run directory. The returned error is
  nil when no unmount and neither directory deletion failed, and otherwise the comma-joined
  messages of the failed unmounts and of the failed directory deletions, in that order;
  the answers to the CNI deletions are no part of it.
\<close>

theorem RemoveAllDirectories_steps_and_error:
  "(\<forall>err. on_List env h = Inl err \<longrightarrow>
       RemoveAllDirectories c env h = (Some err, h @ [(MounterList, Mounts (Inl err))]))
   \<and> (\<forall>procMounts. on_List env h = Inr procMounts \<longrightarrow>
        (\<exists>um cni d1 d2.
           RemoveAllDirectories c env h =
             (joined (failures um @ delete_failure (dataDir c) d1 @ delete_failure (runDir c) d2),
              h @ (MounterList, Mounts (Inr procMounts)) # um @ cni
                @ [deleting_line c, (OsRemoveAll (dataDir c), Err d1),
                   (OsRemoveAll (runDir c), Err d2)])
           \<and> syscalls um = map (\<lambda>v. MounterUnmount (Path v)) (unmount_targets c procMounts)
           \<and> syscalls cni =
               [OsRemove ''/etc/cni/net.d/10-calico.conflist'',
                OsRemove ''/etc/cni/net.d/calico-kubeconfig'',
                OsRemove ''/etc/cni/net.d/10-kuberouter.conflist'']))"
proof (intro conjI allI impI)
  fix err
  assume "on_List env h = Inl err"
  then show "RemoveAllDirectories c env h = (Some err, h @ [(MounterList, Mounts (Inl err))])"
    by (rule RemoveAllDirectories_list_error)
next
  fix procMounts
  assume "on_List env h = Inr procMounts"
  from RemoveAllDirectories_trace[OF this, of c] obtain um r1 r2 r3 d1 d2 where
    t: "RemoveAllDirectories c env h =
          (joined (failures um @ delete_failure (dataDir c) d1 @ delete_failure (runDir c) d2),
           h @ (MounterList, Mounts (Inr procMounts)) # um @ cni_trace r1 r2 r3
             @ [deleting_line c, (OsRemoveAll (dataDir c), Err d1),
                (OsRemoveAll (runDir c), Err d2)])"
       "syscalls um = map (\<lambda>v. MounterUnmount (Path v)) (unmount_targets c procMounts)"
    by blast
  show "\<exists>um cni d1 d2.
           RemoveAllDirectories c env h =
             (joined (failures um @ delete_failure (dataDir c) d1 @ delete_failure (runDir c) d2),
              h @ (MounterList, Mounts (Inr procMounts)) # um @ cni
                @ [deleting_line c, (OsRemoveAll (dataDir c), Err d1),
                   (OsRemoveAll (runDir c), Err d2)])
           \<and> syscalls um = map (\<lambda>v. MounterUnmount (Path v)) (unmount_targets c procMounts)
           \<and> syscalls cni =
               [OsRemove ''/etc/cni/net.d/10-calico.conflist'',
                OsRemove ''/etc/cni/net.d/calico-kubeconfig'',
                OsRemove ''/etc/cni/net.d/10-kuberouter.conflist'']"
    using t syscalls_cni_trace[of r1 r2 r3] by blast
qed

text \<open>
  C4 as the claim states it fails twice. A mount table that cannot be read ends the
  routine before the deletions of steps 3 and 4; and a failed unmount of step 1 is the
  returned error although steps 2, 3 and 4 all succeeded.
\<close>

theorem RemoveAllDirectories_step1_counterexample:
  "RemoveAllDirectories example_config nolist_env [] =
     (Some ''open /proc/mounts: permission denied'',
      [(MounterList, Mounts (Inl ''open /proc/mounts: permission denied''))])
   \<and> RemoveAllDirectories example_config mounted_env [] =
     (Some ''umount /var/lib/k0s: target is busy'',
      [(MounterList, Mounts (Inr [mount_at ''/var/lib/k0s''])),
       (LogPrintf DebugLevel ''%v is mounted! attempting to unmount...''
          [ArgString ''/var/lib/k0s''], Unit),
       (MounterUnmount ''/var/lib/k0s'', Err (Some ''umount /var/lib/k0s: target is busy'')),
       (OsRemove ''/etc/cni/net.d/10-calico.conflist'', Err None),
       (OsRemove ''/etc/cni/net.d/calico-kubeconfig'', Err None),
       (OsRemove ''/etc/cni/net.d/10-kuberouter.conflist'', Err None),
       (LogPrintf InfoLevel ''deleting k0s generated data-dir (%v) and run-dir (%v)''
          [ArgString ''/var/lib/k0s'', ArgString ''/run/k0s''], Unit),
       (OsRemoveAll ''/var/lib/k0s'', Err None),
       (OsRemoveAll ''/run/k0s'', Err None)])"
  by (simp add: RemoveAllDirectories_def removeCNILeftovers_def mounter_List_def
        mounter_Unmount_def os_Remove_def os_RemoveAll_def logrus_printf_def Compare_eq0
        example_config_def nolist_env_def mounted_env_def quiet_env_def mount_at_def Let_def)

theorem RemoveAllDirectories_steps_witness:
  "on_List nolist_env [] = Inl ''open /proc/mounts: permission denied''
   \<and> fst (RemoveAllDirectories example_config nolist_env []) =
       Some ''open /proc/mounts: permission denied''
   \<and> on_List leftover_env [] = Inr []
   \<and> fst (RemoveAllDirectories example_config leftover_env []) =
       Some ''failed to delete /var/lib/k0s. err: unlinkat /var/lib/k0s: device or resource busy''
   \<and> syscalls (snd (RemoveAllDirectories example_config leftover_env [])) =
       [MounterList,
        OsRemove ''/etc/cni/net.d/10-calico.conflist'',
        OsRemove ''/etc/cni/net.d/calico-kubeconfig'',
        OsRemove ''/etc/cni/net.d/10-kuberouter.conflist'',
        OsRemoveAll ''/var/lib/k0s'',
        OsRemoveAll ''/run/k0s'']"
  using RemoveAllDirectories_steps_and_error[of nolist_env "[]" example_config]
        RemoveAllDirectories_steps_and_error[of leftover_env "[]" example_config]
  by (simp add: RemoveAllDirectories_def removeCNILeftovers_def mounter_List_def
        mounter_Unmount_def os_Remove_def os_RemoveAll_def logrus_printf_def Compare_eq0
        example_config_def nolist_env_def leftover_env_def quiet_env_def syscalls_def Let_def)

text \<open>
  C8. Whenever the deletion of the data directory failed, the deletion of the run
  directory is the next and last call of \<open>RemoveAllDirectories\<close>. More fully: when
  the mount table is read, the routine ends with the deletion of the data directory
  followed by that of the run directory, whatever the first answered; and when no unmount
  failed, the data directory's deletion failed and the run directory's did not, the
  returned error is exactly \<open>failed to delete <dataDir>. err: <message>\<close>.
\<close>

theorem RemoveAllDirectories_deletes_both_directories:
  "((\<exists>e. (OsRemoveAll (dataDir c), Err (Some e))
            \<in> set (drop (length h) (snd (RemoveAllDirectories c env h))))
      \<longrightarrow> (\<exists>pre d1 d2. snd (RemoveAllDirectories c env h) =
              pre @ [(OsRemoveAll (dataDir c), Err d1), (OsRemoveAll (runDir c), Err d2)]))
   \<and> (\<forall>procMounts. on_List env h = Inr procMounts \<longrightarrow>
        (\<exists>um cni d1 d2.
           snd (RemoveAllDirectories c env h) =
             h @ (MounterList, Mounts (Inr procMounts)) # um @ cni
               @ [deleting_line c, (OsRemoveAll (dataDir c), Err d1),
                  (OsRemoveAll (runDir c), Err d2)]
           \<and> syscalls um = map (\<lambda>v. MounterUnmount (Path v)) (unmount_targets c procMounts)
           \<and> syscalls cni =
               [OsRemove ''/etc/cni/net.d/10-calico.conflist'',
                OsRemove ''/etc/cni/net.d/calico-kubeconfig'',
                OsRemove ''/etc/cni/net.d/10-kuberouter.conflist'']
           \<and> (\<forall>e. failures um = [] \<and> d1 = Some e \<and> d2 = None \<longrightarrow>
                 fst (RemoveAllDirectories c env h) =
                   Some (''failed to delete '' @ dataDir c @ ''. err: '' @ e))))"
proof (intro conjI allI impI)
  assume failed: "\<exists>e. (OsRemoveAll (dataDir c), Err (Some e))
                      \<in> set (drop (length h) (snd (RemoveAllDirectories c env h)))"
  show "\<exists>pre d1 d2. snd (RemoveAllDirectories c env h) =
          pre @ [(OsRemoveAll (dataDir c), Err d1), (OsRemoveAll (runDir c), Err d2)]"
  proof (cases "on_List env h")
    case (Inl err)
    then have "drop (length h) (snd (RemoveAllDirectories c env h))
                 = [(MounterList, Mounts (Inl err))]"
      by (simp add: RemoveAllDirectories_list_error)
    with failed show ?thesis by simp
  next
    case (Inr procMounts)
    from RemoveAllDirectories_trace[OF this, of c] obtain um r1 r2 r3 d1 d2 where
      "snd (RemoveAllDirectories c env h) =
         (h @ (MounterList, Mounts (Inr procMounts)) # um @ cni_trace r1 r2 r3
            @ [deleting_line c])
         @ [(OsRemoveAll (dataDir c), Err d1), (OsRemoveAll (runDir c), Err d2)]"
      by auto
    then show ?thesis by blast
  qed
next
  fix procMounts
  assume "on_List env h = Inr procMounts"
  from RemoveAllDirectories_trace[OF this, of c] obtain um r1 r2 r3 d1 d2 where
    t: "RemoveAllDirectories c env h =
          (joined (failures um @ delete_failure (dataDir c) d1 @ delete_failure (runDir c) d2),
           h @ (MounterList, Mounts (Inr procMounts)) # um @ cni_trace r1 r2 r3
             @ [deleting_line c, (OsRemoveAll (dataDir c), Err d1),
                (OsRemoveAll (runDir c), Err d2)])"
       "syscalls um = map (\<lambda>v. MounterUnmount (Path v)) (unmount_targets c procMounts)"
    by blast
  have only: "\<forall>e. failures um = [] \<and> d1 = Some e \<and> d2 = None \<longrightarrow>
                fst (RemoveAllDirectories c env h) =
                  Some (''failed to delete '' @ dataDir c @ ''. err: '' @ e)"
    using t(1) by (simp add: joined_def delete_failure_def)
  have "snd (RemoveAllDirectories c env h) =
          h @ (MounterList, Mounts (Inr procMounts)) # um @ cni_trace r1 r2 r3
            @ [deleting_line c, (OsRemoveAll (dataDir c), Err d1),
               (OsRemoveAll (runDir c), Err d2)]"
    using t(1) by simp
  then show "\<exists>um cni d1 d2.
           snd (RemoveAllDirectories c env h) =
             h @ (MounterList, Mounts (Inr procMounts)) # um @ cni
               @ [deleting_line c, (OsRemoveAll (dataDir c), Err d1),
                  (OsRemoveAll (runDir c), Err d2)]
           \<and> syscalls um = map (\<lambda>v. MounterUnmount (Path v)) (unmount_targets c procMounts)
           \<and> syscalls cni =
               [OsRemove ''/etc/cni/net.d/10-calico.conflist'',
                OsRemove ''/etc/cni/net.d/calico-kubeconfig'',
                OsRemove ''/etc/cni/net.d/10-kuberouter.conflist'']
           \<and> (\<forall>e. failures um = [] \<and> d1 = Some e \<and> d2 = None \<longrightarrow>
                 fst (RemoveAllDirectories c env h) =
                   Some (''failed to delete '' @ dataDir c @ ''. err: '' @ e))"
    using t(2) only syscalls_cni_trace[of r1 r2 r3] by blast
qed

text \<open>
  The data directory cannot be deleted, the run directory can: the run directory is
  deleted all the same, and the error is the data directory's failure alone.
\<close>

theorem RemoveAllDirectories_deletes_both_witness:
  "on_List leftover_env [] = Inr []
   \<and> (OsRemoveAll (dataDir example_config),
        Err (Some ''unlinkat /var/lib/k0s: device or resource busy''))
       \<in> set (drop (length ([] :: trace)) (snd (RemoveAllDirectories example_config leftover_env [])))
   \<and> drop 6 (snd (RemoveAllDirectories example_config leftover_env [])) =
       [(OsRemoveAll ''/var/lib/k0s'',
           Err (Some ''unlinkat /var/lib/k0s: device or resource busy'')),
        (OsRemoveAll ''/run/k0s'', Err None)]
   \<and> fst (RemoveAllDirectories example_config leftover_env []) =
       Some ''failed to delete /var/lib/k0s. err: unlinkat /var/lib/k0s: device or resource busy''"
  using RemoveAllDirectories_deletes_both_directories[of example_config "[]" leftover_env]
  by (simp add: RemoveAllDirectories_def removeCNILeftovers_def mounter_List_def
        mounter_Unmount_def os_Remove_def os_RemoveAll_def logrus_printf_def Compare_eq0
        example_config_def leftover_env_def quiet_env_def Let_def)

text \<open>
  C9. \<open>removeCNILeftovers\<close> returns nothing but the changed world: it deletes the
  three fixed paths, each whatever the one before answered, and, if any deletion failed,
  writes one debug line with the failures. Inside \<open>RemoveAllDirectories\<close> the answers
  to these three deletions are no part of the returned error, which is made of the failed
  unmounts and the failed directory deletions (and is the list error when the mount table
  cannot be read).
\<close>

theorem removeCNILeftovers_failures_are_only_logged:
  "(\<exists>r1 r2 r3. removeCNILeftovers env h = h @ cni_trace r1 r2 r3)
   \<and> (\<forall>procMounts. on_List env h = Inr procMounts \<longrightarrow>
        (\<exists>um r1 r2 r3 d1 d2.
           RemoveAllDirectories c env h =
             (joined (failures um @ delete_failure (dataDir c) d1 @ delete_failure (runDir c) d2),
              h @ (MounterList, Mounts (Inr procMounts)) # um @ cni_trace r1 r2 r3
                @ [deleting_line c, (OsRemoveAll (dataDir c), Err d1),
                   (OsRemoveAll (runDir c), Err d2)])
           \<and> syscalls um = map (\<lambda>v. MounterUnmount (Path v)) (unmount_targets c procMounts)))
   \<and> (\<forall>err. on_List env h = Inl err \<longrightarrow> fst (RemoveAllDirectories c env h) = Some err)"
proof (intro conjI allI impI)
  show "\<exists>r1 r2 r3. removeCNILeftovers env h = h @ cni_trace r1 r2 r3"
    by (rule removeCNILeftovers_trace)
next
  fix procMounts
  assume "on_List env h = Inr procMounts"
  then show "\<exists>um r1 r2 r3 d1 d2.
           RemoveAllDirectories c env h =
             (joined (failures um @ delete_failure (dataDir c) d1 @ delete_failure (runDir c) d2),
              h @ (MounterList, Mounts (Inr procMounts)) # um @ cni_trace r1 r2 r3
                @ [deleting_line c, (OsRemoveAll (dataDir c), Err d1),
                   (OsRemoveAll (runDir c), Err d2)])
           \<and> syscalls um = map (\<lambda>v. MounterUnmount (Path v)) (unmount_targets c procMounts)"
    by (rule RemoveAllDirectories_trace)
next
  fix err
  assume "on_List env h = Inl err"
  then show "fst (RemoveAllDirectories c env h) = Some err"
    by (simp add: RemoveAllDirectories_list_error)
qed

text \<open>
  None of the three files exists: the three failures are in one debug line, and
  \<open>RemoveAllDirectories\<close> returns no error.
\<close>

theorem removeCNILeftovers_witness:
  "on_List nocni_env [] = Inr []
   \<and> removeCNILeftovers nocni_env [] =
       cni_trace (Some ''remove /etc/cni/net.d/10-calico.conflist: no such file or directory'')
                 (Some ''remove /etc/cni/net.d/calico-kubeconfig: no such file or directory'')
                 (Some ''remove /etc/cni/net.d/10-kuberouter.conflist: no such file or directory'')
   \<and> map fst (removeCNILeftovers nocni_env []) =
       [OsRemove ''/etc/cni/net.d/10-calico.conflist'',
        OsRemove ''/etc/cni/net.d/calico-kubeconfig'',
        OsRemove ''/etc/cni/net.d/10-kuberouter.conflist'',
        LogPrintf DebugLevel
          ''failed to delete /etc/cni/net.d/10-calico.conflist. err: remove /etc/cni/net.d/10-calico.conflist: no such file or directory, failed to delete /etc/cni/net.d/calico-kubeconfig. err: remove /etc/cni/net.d/calico-kubeconfig: no such file or directory, failed to delete /etc/cni/net.d/10-kuberouter.conflist. err: remove /etc/cni/net.d/10-kuberouter.conflist: no such file or directory''
          []]
   \<and> fst (RemoveAllDirectories example_config nocni_env []) = None"
  using removeCNILeftovers_failures_are_only_logged[of nocni_env "[]" example_config]
  by (simp add: RemoveAllDirectories_def removeCNILeftovers_def cni_trace_def
        delete_failure_def mounter_List_def
        mounter_Unmount_def os_Remove_def os_RemoveAll_def logrus_printf_def Compare_eq0
        example_config_def nocni_env_def quiet_env_def Let_def)

end
